theory Spec2Isabelle
  imports Complex_Main "HOL-Library.Word"
begin

section \<open>Python values\<close>

text \<open>
  A Python \<^verbatim>\<open>str\<close> is a sequence of Unicode code points, so \<^verbatim>\<open>len\<close> is the length of
  the list and non-ASCII text is covered. String literals of the source are ASCII and are
  written with \<open>lit\<close>.
\<close>

type_synonym pystr = "nat list"

definition lit :: "string \<Rightarrow> pystr" where
  "lit s = map of_char s"

text \<open>
  \<^verbatim>\<open>kw in s\<close> on strings: \<open>kw\<close> occurs in \<open>s\<close> as a contiguous block.
\<close>

fun starts_with :: "pystr \<Rightarrow> pystr \<Rightarrow> bool" where
  "starts_with [] s = True"
| "starts_with (k # ks) [] = False"
| "starts_with (k # ks) (c # cs) = (k = c \<and> starts_with ks cs)"

fun contains :: "pystr \<Rightarrow> pystr \<Rightarrow> bool" where
  "contains kw [] = (kw = [])"
| "contains kw (c # cs) = (starts_with kw (c # cs) \<or> contains kw cs)"

text \<open>
  \<^verbatim>\<open>str.lower\<close> is a built-in whose table covers all of Unicode. Every function of the
  source that calls it takes it as the parameter \<open>lower\<close>, so each theorem holds for
  whatever the built-in computes. \<open>ascii_lower\<close> is what it computes on ASCII text and is
  the instance used on concrete inputs.
\<close>

definition ascii_lower :: "pystr \<Rightarrow> pystr" where
  "ascii_lower s = map (\<lambda>c. if 65 \<le> c \<and> c \<le> 90 then c + 32 else c) s"

text \<open>\<^verbatim>\<open>str(n)\<close> for a length: the decimal digits of \<open>n\<close>.\<close>

fun str_nat :: "nat \<Rightarrow> pystr" where
  "str_nat n = (if n < 10 then [48 + n] else str_nat (n div 10) @ [48 + n mod 10])"

declare str_nat.simps [simp del]

text \<open>
  Scores are Python floats in the source. The embedding computes with exact rationals and
  reads every decimal literal exactly. \<^verbatim>\<open>round(x, 2)\<close> rounds to the nearest multiple of
  \<open>1/100\<close>, a tie going to the even multiple.
\<close>

definition round_half_even :: "rat \<Rightarrow> int" where
  "round_half_even x =
     (let f = \<lfloor>x\<rfloor>; d = x - of_int f
      in if d < 1 / 2 then f
         else if 1 / 2 < d then f + 1
         else if even f then f else f + 1)"

definition py_round2 :: "rat \<Rightarrow> rat" where
  "py_round2 x = of_int (round_half_even (x * 100)) / 100"

text \<open>The values stored in a \<^verbatim>\<open>details\<close> dictionary, and the dictionary every agent returns.\<close>

datatype pyval = PyStr pystr | PyInt int | PyStrList "pystr list"

record evaluation =
  agent_used :: pystr
  summary :: pystr
  score :: rat
  details :: "(pystr \<times> pyval) list"

section \<open>agents/script\_reviewer.py\<close>

definition positive_keywords :: "pystr list" where
  "positive_keywords =
     [lit ''creative'', lit ''innovative'', lit ''compelling'', lit ''engaging'', lit ''unique'']"

definition negative_keywords :: "pystr list" where
  "negative_keywords = [lit ''generic'', lit ''boring'', lit ''unclear'', lit ''confusing'']"

text \<open>\<^verbatim>\<open>sum(1 for kw in kws if kw.lower() in content.lower())\<close>\<close>

definition keyword_count :: "(pystr \<Rightarrow> pystr) \<Rightarrow> pystr list \<Rightarrow> pystr \<Rightarrow> nat" where
  "keyword_count lower kws content =
     length (filter (\<lambda>kw. contains (lower kw) (lower content)) kws)"

definition script_base_score :: "nat \<Rightarrow> rat" where
  "script_base_score content_length =
     min (5 / 10 + (of_nat content_length / 2000) * (3 / 10)) (95 / 100)"

definition script_final_score :: "nat \<Rightarrow> nat \<Rightarrow> nat \<Rightarrow> rat" where
  "script_final_score content_length positive_count negative_count =
     (let base_score = script_base_score content_length;
          score_adjustment = of_nat positive_count * (5 / 100) - of_nat negative_count * (1 / 10)
      in max (1 / 10) (min (95 / 100) (base_score + score_adjustment)))"

text \<open>The verdict with its canned risks and benefits.\<close>

definition script_verdict :: "rat \<Rightarrow> pystr \<times> pystr \<times> pystr" where
  "script_verdict final_score =
     (if 7 / 10 \<le> final_score then
        (lit ''Good fit'',
         lit ''Minor concerns about pacing in the middle section.'',
         lit ''Strong narrative structure with compelling character development.'')
      else if 5 / 10 \<le> final_score then
        (lit ''Needs revision'',
         lit ''Some structural issues and unclear character motivations.'',
         lit ''Solid concept with potential for improvement.'')
      else
        (lit ''Requires significant work'',
         lit ''Multiple structural and narrative issues identified.'',
         lit ''Core idea has potential but needs substantial development.''))"

definition evaluate_script ::
  "(pystr \<Rightarrow> pystr) \<Rightarrow> pystr \<Rightarrow> pystr option \<Rightarrow> pystr option \<Rightarrow> evaluation" where
  "evaluate_script lower content prompt rubric_text =
     (let content_length = length content;
          positive_count = keyword_count lower positive_keywords content;
          negative_count = keyword_count lower negative_keywords content;
          final_score = script_final_score content_length positive_count negative_count;
          (verdict, risks, benefits) = script_verdict final_score
      in \<lparr>agent_used = lit ''script_reviewer'',
          summary = lit ''Script evaluation completed. Content length: '' @ str_nat content_length
            @ lit '' characters. Overall assessment: '' @ lower verdict @ lit ''.'',
          score = py_round2 final_score,
          details =
            [(lit ''verdict'', PyStr verdict),
             (lit ''risks'', PyStr risks),
             (lit ''benefits'', PyStr benefits),
             (lit ''content_length'', PyInt (int content_length)),
             (lit ''evaluation_notes'', PyStr (lit
               ''This is a mock evaluation. In production, this would include detailed analysis from an AI agent.''))]\<rparr>)"

section \<open>agents/impact\_agent.py\<close>

text \<open>The dictionary of sensitive topics, in insertion order.\<close>

definition sensitive_topics :: "(pystr \<times> pystr list) list" where
  "sensitive_topics =
     [(lit ''violence'',
         [lit ''violence'', lit ''violent'', lit ''fight'', lit ''attack'', lit ''war'']),
      (lit ''discrimination'',
         [lit ''discrimination'', lit ''prejudice'', lit ''bias'', lit ''stereotype'']),
      (lit ''sensitive_content'',
         [lit ''trauma'', lit ''abuse'', lit ''harassment'', lit ''exploitation''])]"

definition positive_indicators :: "pystr list" where
  "positive_indicators =
     [lit ''diversity'', lit ''inclusion'', lit ''empowerment'', lit ''representation'',
      lit ''awareness'']"

definition detected_topics :: "pystr \<Rightarrow> pystr list" where
  "detected_topics content_lower =
     map fst (filter (\<lambda>(topic, keywords). list_ex (\<lambda>kw. contains kw content_lower) keywords)
       sensitive_topics)"

definition indicator_count :: "pystr \<Rightarrow> nat" where
  "indicator_count content_lower =
     length (filter (\<lambda>ind. contains ind content_lower) positive_indicators)"

text \<open>The score before rounding, from the detected topics and the indicator count.\<close>

definition impact_base_score :: "nat \<Rightarrow> nat \<Rightarrow> rat" where
  "impact_base_score topic_count positive_count =
     (let base_score = 7 / 10;
          base_score =
            (if topic_count \<noteq> 0
             then max (2 / 10) (base_score + (- (2 / 10)) * of_nat topic_count)
             else base_score)
      in min (95 / 100) (base_score + of_nat positive_count * (5 / 100)))"

definition impact_assessment :: "rat \<Rightarrow> pystr \<times> pystr \<times> pystr" where
  "impact_assessment final_score =
     (if 7 / 10 \<le> final_score then
        (lit ''Positive'',
         lit ''Minimal concerns. Content appears to handle sensitive topics thoughtfully.'',
         lit ''Continue current approach. Consider adding trigger warnings if needed.'')
      else if 5 / 10 \<le> final_score then
        (lit ''Mixed'',
         lit ''Some sensitive content detected. Review for potential unintended harm.'',
         lit ''Consider sensitivity review and potential content warnings.'')
      else
        (lit ''Needs Review'',
         lit ''Multiple sensitive topics identified. Requires careful evaluation.'',
         lit ''Strongly recommend sensitivity review and content modification.''))"

definition evaluate_impact ::
  "(pystr \<Rightarrow> pystr) \<Rightarrow> pystr \<Rightarrow> pystr option \<Rightarrow> pystr option \<Rightarrow> evaluation" where
  "evaluate_impact lower content prompt rubric_text =
     (let content_lower = lower content;
          detected = detected_topics content_lower;
          positive_count = indicator_count content_lower;
          final_score = py_round2 (impact_base_score (length detected) positive_count);
          (impact_level, concerns, recommendations) = impact_assessment final_score
      in \<lparr>agent_used = lit ''impact_agent'',
          summary = lit ''Impact evaluation completed. Detected '' @ str_nat (length detected)
            @ lit '' sensitive topic categories. Impact level: '' @ lower impact_level @ lit ''.'',
          score = final_score,
          details =
            [(lit ''impact_level'', PyStr impact_level),
             (lit ''concerns'', PyStr concerns),
             (lit ''recommendations'', PyStr recommendations),
             (lit ''detected_topics'',
                PyStrList (if detected \<noteq> [] then detected else [lit ''None detected''])),
             (lit ''evaluation_notes'', PyStr (lit
               ''This is a mock evaluation. In production, this would include detailed impact analysis from an AI agent.''))]\<rparr>)"

section \<open>orchestrator.py\<close>

definition impact_keywords :: "pystr list" where
  "impact_keywords =
     [lit ''impact'', lit ''sensitivity'', lit ''sensitive'', lit ''social'', lit ''cultural'',
      lit ''representation'', lit ''diversity'', lit ''inclusion'', lit ''harmful'',
      lit ''offensive'', lit ''appropriate'', lit ''suitable'', lit ''concerns'', lit ''risks'',
      lit ''ethical'']"

text \<open>\<^verbatim>\<open>(prompt or "").lower()\<close>: a missing prompt counts as the empty string.\<close>

definition prompt_lower :: "(pystr \<Rightarrow> pystr) \<Rightarrow> pystr option \<Rightarrow> pystr" where
  "prompt_lower lower prompt = lower (case prompt of None \<Rightarrow> [] | Some p \<Rightarrow> p)"

definition is_impact_query :: "(pystr \<Rightarrow> pystr) \<Rightarrow> pystr option \<Rightarrow> bool" where
  "is_impact_query lower prompt =
     list_ex (\<lambda>keyword. contains keyword (prompt_lower lower prompt)) impact_keywords"

definition route ::
  "(pystr \<Rightarrow> pystr) \<Rightarrow> pystr \<Rightarrow> pystr option \<Rightarrow> pystr option \<Rightarrow> evaluation" where
  "route lower content_text prompt rubric_text =
     (if is_impact_query lower prompt
      then evaluate_impact lower content_text prompt rubric_text
      else evaluate_script lower content_text prompt rubric_text)"

section \<open>main.py\<close>

text \<open>
  A \<^verbatim>\<open>bytes\<close> object is a list of bytes. Exceptions are values: the built-in ones the
  modelled code can meet, and what a request ends in when it fails, either the
  \<^verbatim>\<open>HTTPException\<close> the handler raises (status code and detail) or an exception that
  nothing catches.
\<close>

type_synonym pybytes = "8 word list"

datatype py_error = UnicodeDecodeError | IndexError

datatype failure = HTTPException nat pystr | Unhandled py_error

text \<open>
  \<^verbatim>\<open>bytes.decode('utf-8')\<close> in strict mode, on the byte values: the well-formed byte
  sequences of the Unicode standard (no overlong form, no surrogate, nothing above
  \<open>0x10FFFF\<close>); \<open>None\<close> is \<^verbatim>\<open>UnicodeDecodeError\<close>.
\<close>

definition continuation :: "nat \<Rightarrow> bool" where
  "continuation b = (0x80 \<le> b \<and> b \<le> 0xBF)"

fun utf8_code_points :: "nat list \<Rightarrow> pystr option" where
  "utf8_code_points [] = Some []"
| "utf8_code_points (b0 # bs) =
     (if b0 < 0x80 then map_option ((#) b0) (utf8_code_points bs)
      else if 0xC2 \<le> b0 \<and> b0 \<le> 0xDF then
        (case bs of
           b1 # rest \<Rightarrow>
             if continuation b1
             then map_option ((#) ((b0 - 0xC0) * 64 + (b1 - 0x80))) (utf8_code_points rest)
             else None
         | _ \<Rightarrow> None)
      else if 0xE0 \<le> b0 \<and> b0 \<le> 0xEF then
        (case bs of
           b1 # b2 # rest \<Rightarrow>
             if continuation b1 \<and> continuation b2
                \<and> (b0 = 0xE0 \<longrightarrow> 0xA0 \<le> b1) \<and> (b0 = 0xED \<longrightarrow> b1 \<le> 0x9F)
             then map_option ((#) ((b0 - 0xE0) * 4096 + (b1 - 0x80) * 64 + (b2 - 0x80)))
                    (utf8_code_points rest)
             else None
         | _ \<Rightarrow> None)
      else if 0xF0 \<le> b0 \<and> b0 \<le> 0xF4 then
        (case bs of
           b1 # b2 # b3 # rest \<Rightarrow>
             if continuation b1 \<and> continuation b2 \<and> continuation b3
                \<and> (b0 = 0xF0 \<longrightarrow> 0x90 \<le> b1) \<and> (b0 = 0xF4 \<longrightarrow> b1 \<le> 0x8F)
             then map_option
                    ((#) ((b0 - 0xF0) * 262144 + (b1 - 0x80) * 4096 + (b2 - 0x80) * 64
                          + (b3 - 0x80)))
                    (utf8_code_points rest)
             else None
         | _ \<Rightarrow> None)
      else None)"

definition decode_utf8 :: "pybytes \<Rightarrow> py_error + pystr" where
  "decode_utf8 file_content =
     (case utf8_code_points (map unat file_content) of
        None \<Rightarrow> Inl UnicodeDecodeError
      | Some text \<Rightarrow> Inr text)"

text \<open>\<^verbatim>\<open>bytes.decode('latin-1')\<close>: every byte is the code point of its value.\<close>

definition decode_latin1 :: "pybytes \<Rightarrow> py_error + pystr" where
  "decode_latin1 file_content = Inr (map unat file_content)"

text \<open>\<^verbatim>\<open>try: decode('utf-8') except UnicodeDecodeError: decode('latin-1')\<close>\<close>

definition extract_text_from_txt :: "pybytes \<Rightarrow> py_error + pystr" where
  "extract_text_from_txt file_content =
     (case decode_utf8 file_content of
        Inr text \<Rightarrow> Inr text
      | Inl UnicodeDecodeError \<Rightarrow> decode_latin1 file_content
      | Inl e \<Rightarrow> Inl e)"

text \<open>\<^verbatim>\<open>str.isspace\<close> of one code point, and \<^verbatim>\<open>str.strip()\<close>.\<close>

definition is_space :: "nat \<Rightarrow> bool" where
  "is_space c =
     ((9 \<le> c \<and> c \<le> 13) \<or> (28 \<le> c \<and> c \<le> 32) \<or> c = 133 \<or> c = 160 \<or> c = 5760
      \<or> (8192 \<le> c \<and> c \<le> 8202) \<or> c = 8232 \<or> c = 8233 \<or> c = 8239 \<or> c = 8287
      \<or> c = 12288)"

definition strip :: "pystr \<Rightarrow> pystr" where
  "strip s = rev (dropWhile is_space (rev (dropWhile is_space s)))"

text \<open>\<^verbatim>\<open>sep.join(parts)\<close> and \<^verbatim>\<open>s.split(sep)\<close> for a separator of one character.\<close>

fun join :: "pystr \<Rightarrow> pystr list \<Rightarrow> pystr" where
  "join sep [] = []"
| "join sep [p] = p"
| "join sep (p # q # ps) = p @ sep @ join sep (q # ps)"

fun split :: "nat \<Rightarrow> pystr \<Rightarrow> pystr list" where
  "split sep [] = [[]]"
| "split sep (c # cs) =
     (if c = sep then [] # split sep cs
      else (case split sep cs of
              p # ps \<Rightarrow> (c # p) # ps
            | [] \<Rightarrow> [[c]]))"

text \<open>
  The PDF library is an external collaborator. It is the parameter \<open>pdf_reader\<close>: for the
  bytes of a file, either the text of every page or the message of the exception raised
  while reading.
\<close>

type_synonym pdf_reader = "pybytes \<Rightarrow> pystr + pystr list"

definition extract_text_from_pdf :: "pdf_reader \<Rightarrow> pybytes \<Rightarrow> failure + pystr" where
  "extract_text_from_pdf pdf_reader file_content =
     (case pdf_reader file_content of
        Inl e \<Rightarrow> Inl (HTTPException 400 (lit ''Error reading PDF: '' @ e))
      | Inr pages \<Rightarrow> Inr (strip (concat (map (\<lambda>page_text. page_text @ [10]) pages))))"

text \<open>An uploaded file: its name, which may be missing, and what \<^verbatim>\<open>read()\<close> returns.\<close>

record upload =
  filename :: "pystr option"
  file_bytes :: pybytes

text \<open>\<^verbatim>\<open>f.filename.split('.')[-1].lower() if f.filename else ''\<close>\<close>

definition file_extension :: "(pystr \<Rightarrow> pystr) \<Rightarrow> upload \<Rightarrow> pystr" where
  "file_extension lower f =
     (case filename f of
        None \<Rightarrow> []
      | Some name \<Rightarrow> if name = [] then [] else lower (last (split 46 name)))"

definition DEFAULT_RUBRIC :: pystr where
  "DEFAULT_RUBRIC =
     lit ''SaiL merges arts, technology, and social impact to unite and inspire humanity through entertaining and transformative storytelling.''
     @ [10, 10]
     @ lit ''In an era characterized by a fragmented and often polarizing media landscape, the studio operates on a central, guiding principle: the cultivation of Actionable Hope. This goes beyond passive inspiration and focuses on empowering audiences with clarity and motivation to create change.''
     @ [10, 10]
     @ lit ''Each project functions as the epicenter of a potential movement. Stories are developed alongside strategies for real-world engagement''
     @ [8212]
     @ lit ''such as partnerships, community resources, or platforms for dialogue''
     @ [8212]
     @ lit ''transforming audiences from passive viewers into active participants.''
     @ [10, 10]
     @ lit ''Evaluation Questions:'' @ [10]
     @ lit ''- Does the story have a positive message?'' @ [10]
     @ lit ''- Does the story uplift and inspire?'' @ [10]
     @ lit ''- Does the story align with the Heroine's Journey?'' @ [10]
     @ lit ''- Does the story address a critical problem worth solving?'' @ [10]
     @ lit ''- Is there potential for measurable impact?'' @ [10]
     @ lit ''- Is the story commercially viable? (not a deciding factor alone)'' @ [10]
     @ lit ''- Do the author(s) align with the studio's mission?''"

text \<open>
  The handler \<^verbatim>\<open>query_endpoint\<close>, in the order of the source. First the script content is
  collected (lines 110 to 134): the trimmed \<^verbatim>\<open>text_input\<close> when it is given and not empty,
  then the text of \<^verbatim>\<open>script_file\<close> when one is uploaded, joined by a blank line.
\<close>

definition unsupported_file_type :: "pystr \<Rightarrow> pystr" where
  "unsupported_file_type ext =
     lit ''Unsupported file type: '' @ ext @ lit ''. Only PDF and TXT are supported.''"

definition unsupported_rubric_file_type :: "pystr \<Rightarrow> pystr" where
  "unsupported_rubric_file_type ext =
     lit ''Unsupported rubric file type: '' @ ext
       @ lit ''. Only PDF and TXT are supported.''"

definition no_script_content :: pystr where
  "no_script_content =
     lit ''No script content provided. Please provide text_input or upload a script_file.''"

definition text_parts :: "pystr option \<Rightarrow> pystr list" where
  "text_parts text_input =
     (case text_input of
        None \<Rightarrow> []
      | Some t \<Rightarrow> if t = [] then [] else [strip t])"

definition collect_content ::
  "(pystr \<Rightarrow> pystr) \<Rightarrow> pdf_reader \<Rightarrow> pystr option \<Rightarrow> upload option \<Rightarrow> failure + pystr" where
  "collect_content lower pdf_reader text_input script_file =
     (let content_parts = text_parts text_input
      in case script_file of
           None \<Rightarrow> Inr (join [10, 10] content_parts)
         | Some f \<Rightarrow>
             (let ext = file_extension lower f
              in if ext = lit ''pdf'' then
                   (case extract_text_from_pdf pdf_reader (file_bytes f) of
                      Inl e \<Rightarrow> Inl e
                    | Inr extracted_text \<Rightarrow>
                        Inr (join [10, 10] (content_parts @ [extracted_text])))
                 else if ext = lit ''txt'' then
                   (case extract_text_from_txt (file_bytes f) of
                      Inl e \<Rightarrow> Inl (Unhandled e)
                    | Inr extracted_text \<Rightarrow>
                        Inr (join [10, 10] (content_parts @ [extracted_text])))
                 else Inl (HTTPException 400 (unsupported_file_type ext))))"

text \<open>The rubric (lines 143 to 159): the uploaded one, or the default.\<close>

definition resolve_rubric ::
  "(pystr \<Rightarrow> pystr) \<Rightarrow> pdf_reader \<Rightarrow> upload option \<Rightarrow> failure + pystr" where
  "resolve_rubric lower pdf_reader rubric_file =
     (case rubric_file of
        None \<Rightarrow> Inr DEFAULT_RUBRIC
      | Some f \<Rightarrow>
          (let ext = file_extension lower f
           in if ext = lit ''pdf'' then extract_text_from_pdf pdf_reader (file_bytes f)
              else if ext = lit ''txt'' then
                (case extract_text_from_txt (file_bytes f) of
                   Inl e \<Rightarrow> Inl (Unhandled e)
                 | Inr rubric_text \<Rightarrow> Inr rubric_text)
              else Inl (HTTPException 400 (unsupported_rubric_file_type ext))))"

text \<open>
  The handler with the call of the router left open: \<open>router\<close> returns the agent's result
  or the message of an exception, which the handler turns into status 500. What the
  handler does before the call can then be stated for every router.
\<close>

type_synonym router = "pystr \<Rightarrow> pystr option \<Rightarrow> pystr option \<Rightarrow> pystr + evaluation"

definition query_endpoint_with ::
  "router \<Rightarrow> (pystr \<Rightarrow> pystr) \<Rightarrow> pdf_reader \<Rightarrow> pystr option \<Rightarrow> pystr option
     \<Rightarrow> upload option \<Rightarrow> upload option \<Rightarrow> failure + evaluation" where
  "query_endpoint_with router lower pdf_reader text_input prompt script_file rubric_file =
     (case collect_content lower pdf_reader text_input script_file of
        Inl e \<Rightarrow> Inl e
      | Inr content_text \<Rightarrow>
          if strip content_text = [] then Inl (HTTPException 400 no_script_content)
          else
            (case resolve_rubric lower pdf_reader rubric_file of
               Inl e \<Rightarrow> Inl e
             | Inr rubric_text \<Rightarrow>
                 (case router content_text prompt (Some rubric_text) of
                    Inl e \<Rightarrow> Inl (HTTPException 500 (lit ''Error processing query: '' @ e))
                  | Inr result \<Rightarrow> Inr result)))"

text \<open>The handler of the source calls \<open>route\<close>, which has no raising path.\<close>

definition query_endpoint ::
  "(pystr \<Rightarrow> pystr) \<Rightarrow> pdf_reader \<Rightarrow> pystr option \<Rightarrow> pystr option
     \<Rightarrow> upload option \<Rightarrow> upload option \<Rightarrow> failure + evaluation" where
  "query_endpoint lower =
     query_endpoint_with (\<lambda>content_text prompt rubric_text.
       Inr (route lower content_text prompt rubric_text)) lower"

section \<open>FineTunedLLM/app.py\<close>

record message =
  msg_role :: pystr
  msg_content :: pystr

text \<open>
  \<^verbatim>\<open>stream_generate\<close>. With a model and a tokenizer, generation runs on a thread of its
  own; that branch is the parameter \<open>generate\<close>. Without one of them the function
  returns the echo iterator, here the list of the fragments it yields, and no thread.
  \<^verbatim>\<open>messages[-1]\<close> raises \<^verbatim>\<open>IndexError\<close> on an empty list.
\<close>

definition stream_generate ::
  "('tok \<Rightarrow> 'mdl \<Rightarrow> message list \<Rightarrow> 'cfg \<Rightarrow> py_error + pystr list \<times> 'thread option)
     \<Rightarrow> 'tok option \<Rightarrow> 'mdl option \<Rightarrow> message list \<Rightarrow> 'cfg
     \<Rightarrow> py_error + pystr list \<times> 'thread option" where
  "stream_generate generate tokenizer model messages settings =
     (case (tokenizer, model) of
        (Some tok, Some mdl) \<Rightarrow> generate tok mdl messages settings
      | _ \<Rightarrow>
          (case messages of
             [] \<Rightarrow> Inl IndexError
           | _ \<Rightarrow>
               Inr (map (\<lambda>ch. [ch]) (lit ''Echo: '' @ msg_content (last messages)), None)))"

section \<open>The wording of the specification\<close>

text \<open>
  Two sentences of the specification are compared with the code below; these definitions
  follow their words. The assembled content: the sources that are provided and not empty,
  the raw text first and the text of the file second, with a blank line between them.
\<close>

definition provided :: "pystr option \<Rightarrow> pystr list" where
  "provided source = (case source of None \<Rightarrow> [] | Some text \<Rightarrow> [text])"

definition spec_assembled_content :: "pystr option \<Rightarrow> pystr option \<Rightarrow> pystr" where
  "spec_assembled_content text_input file_text =
     join [10, 10] (filter (\<lambda>source. source \<noteq> []) (provided text_input @ provided file_text))"

text \<open>
  The bonus of the impact score: 0.05 for every occurrence of a positive-indicator keyword
  in the lowercased content, on top of the base lowered by 0.2 for every detected topic
  (floor 0.2), with the ceiling 0.95.
\<close>

fun occurrences :: "pystr \<Rightarrow> pystr \<Rightarrow> nat" where
  "occurrences kw [] = 0"
| "occurrences kw (c # cs) = (if starts_with kw (c # cs) then 1 else 0) + occurrences kw cs"

definition spec_indicator_occurrences :: "pystr \<Rightarrow> nat" where
  "spec_indicator_occurrences content_lower =
     sum_list (map (\<lambda>ind. occurrences ind content_lower) positive_indicators)"

definition spec_impact_score :: "nat \<Rightarrow> nat \<Rightarrow> rat" where
  "spec_impact_score topic_count occurrence_count =
     min (95 / 100)
       (max (2 / 10) (7 / 10 - (2 / 10) * of_nat topic_count)
          + (5 / 100) * of_nat occurrence_count)"

section \<open>Collaborators for the worked inputs\<close>

text \<open>
  A PDF reader that fails on every file and a generation branch that is never taken: the
  worked inputs below use neither a PDF nor a model.
\<close>

definition no_pdf :: pdf_reader where
  "no_pdf file_content = Inl (lit ''EOF marker not found'')"

definition no_generate ::
  "unit \<Rightarrow> unit \<Rightarrow> message list \<Rightarrow> unit \<Rightarrow> py_error + pystr list \<times> unit option" where
  "no_generate tok mdl messages settings = Inr ([], Some ())"

section \<open>Substrings and rounding\<close>

lemma starts_with_iff: "starts_with kw s \<longleftrightarrow> (\<exists>post. s = kw @ post)"
  by (induction kw s rule: starts_with.induct) auto

lemma contains_iff: "contains kw s \<longleftrightarrow> (\<exists>pre post. s = pre @ kw @ post)"
proof (induction s)
  case Nil
  then show ?case by auto
next
  case (Cons c cs)
  show ?case
  proof
    assume "contains kw (c # cs)"
    then consider "starts_with kw (c # cs)" | "contains kw cs" by auto
    then show "\<exists>pre post. c # cs = pre @ kw @ post"
    proof cases
      case 1
      then obtain post where "c # cs = kw @ post" by (auto simp: starts_with_iff)
      then have "c # cs = [] @ kw @ post" by simp
      then show ?thesis by blast
    next
      case 2
      then obtain pre post where "cs = pre @ kw @ post" using Cons.IH by auto
      then have "c # cs = (c # pre) @ kw @ post" by simp
      then show ?thesis by blast
    qed
  next
    assume "\<exists>pre post. c # cs = pre @ kw @ post"
    then obtain pre post where eq: "c # cs = pre @ kw @ post" by blast
    show "contains kw (c # cs)"
    proof (cases pre)
      case Nil
      with eq have "starts_with kw (c # cs)" by (auto simp: starts_with_iff)
      then show ?thesis by simp
    next
      case (Cons a pre')
      with eq have "cs = pre' @ kw @ post" by simp
      then have "contains kw cs" using Cons.IH by blast
      then show ?thesis by simp
    qed
  qed
qed

lemma round_half_even_of_int: "round_half_even (of_int k) = k"
  by (simp add: round_half_even_def)

lemma py_round2_hundredths: "py_round2 (of_int k / 100) = of_int k / 100"
  by (simp add: py_round2_def round_half_even_of_int)



section \<open>The scores of the two agents\<close>


lemma score_evaluate_impact:
  "score (evaluate_impact lower c p r) =
     py_round2 (impact_base_score (length (detected_topics (lower c))) (indicator_count (lower c)))"
  by (simp add: evaluate_impact_def Let_def split: prod.split)



lemma impact_base_score_hundredths:
  "impact_base_score n p = of_int (min 95 (max 20 (70 - 20 * int n) + 5 * int p)) / 100"
  by (auto simp add: impact_base_score_def Let_def min_def max_def field_simps)

lemma impact_score_closed:
  "score (evaluate_impact lower c p r) =
     min (95 / 100) (max (2 / 10) (7 / 10 - (2 / 10) * of_nat (length (detected_topics (lower c))))
        + (5 / 100) * of_nat (indicator_count (lower c)))"
  unfolding score_evaluate_impact
  apply (subst impact_base_score_hundredths)
  apply (subst py_round2_hundredths)
  apply (auto simp add: min_def max_def field_simps)
  done

text \<open>
  Claim C9. The whole result of either agent (agent name, summary, score and details)
  depends on the content alone: two calls with the same content and any prompts and
  rubrics return the same result.
\<close>

theorem agents_ignore_prompt_and_rubric:
  "evaluate_script lower content prompt rubric_text
     = evaluate_script lower content prompt' rubric_text'
   \<and> evaluate_impact lower content prompt rubric_text
     = evaluate_impact lower content prompt' rubric_text'"
  by (simp add: evaluate_script_def evaluate_impact_def)

theorem agents_ignore_prompt_and_rubric_witness:
  "evaluate_script ascii_lower (lit ''A creative war story'') None None
     = evaluate_script ascii_lower (lit ''A creative war story'')
         (Some (lit ''check social impact'')) (Some DEFAULT_RUBRIC)
   \<and> evaluate_impact ascii_lower (lit ''A creative war story'') None None
     = evaluate_impact ascii_lower (lit ''A creative war story'')
         (Some (lit ''check social impact'')) (Some DEFAULT_RUBRIC)"
  by (rule agents_ignore_prompt_and_rubric)



section \<open>Plain-text extraction\<close>

lemma extract_text_from_txt_eq:
  "extract_text_from_txt file_content =
     Inr (case utf8_code_points (map unat file_content) of
            Some text \<Rightarrow> text
          | None \<Rightarrow> map unat file_content)"
  by (simp add: extract_text_from_txt_def decode_utf8_def decode_latin1_def split: option.split)

lemma file_extension_simps:
  "file_extension lower \<lparr>filename = None, file_bytes = b\<rparr> = []"
  "file_extension lower \<lparr>filename = Some [], file_bytes = b\<rparr> = []"
  "name \<noteq> [] \<Longrightarrow>
     file_extension lower \<lparr>filename = Some name, file_bytes = b\<rparr> = lower (last (split 46 name))"
  by (simp_all add: file_extension_def)

lemma ext_notes:
  "file_extension ascii_lower \<lparr>filename = Some (lit ''notes.TXT''), file_bytes = b\<rparr>
     = lit ''txt''"
  by (simp add: file_extension_def lit_def ascii_lower_def)

text \<open>
  Claim C10. Plain-text extraction returns a string for every byte string: the UTF-8
  decoding is tried first and latin-1, which decodes every byte sequence, is the fallback.
  So an upload with extension txt never makes the collection of the content or of the
  rubric fail.
\<close>

theorem extract_text_from_txt_total:
  "(\<exists>text. extract_text_from_txt file_content = Inr text)
   \<and> extract_text_from_txt file_content =
       (case decode_utf8 file_content of
          Inr text \<Rightarrow> Inr text
        | Inl e \<Rightarrow> decode_latin1 file_content)
   \<and> decode_latin1 file_content = Inr (map unat file_content)
   \<and> (file_extension lower f = lit ''txt'' \<longrightarrow>
        (\<exists>content_text. collect_content lower pdf_reader text_input (Some f) = Inr content_text)
        \<and> (\<exists>rubric_text. resolve_rubric lower pdf_reader (Some f) = Inr rubric_text))"
proof -
  have pdf_txt: "lit ''txt'' \<noteq> lit ''pdf''" by (simp add: lit_def)
  have a: "\<exists>text. extract_text_from_txt file_content = Inr text"
    by (simp add: extract_text_from_txt_eq)
  have b: "extract_text_from_txt file_content =
       (case decode_utf8 file_content of
          Inr text \<Rightarrow> Inr text
        | Inl e \<Rightarrow> decode_latin1 file_content)"
    by (simp add: extract_text_from_txt_def decode_utf8_def split: option.split)
  have c: "decode_latin1 file_content = Inr (map unat file_content)"
    by (simp add: decode_latin1_def)
  have d: "file_extension lower f = lit ''txt'' \<longrightarrow>
        (\<exists>content_text. collect_content lower pdf_reader text_input (Some f) = Inr content_text)
        \<and> (\<exists>rubric_text. resolve_rubric lower pdf_reader (Some f) = Inr rubric_text)"
    using pdf_txt
    by (simp add: collect_content_def resolve_rubric_def Let_def extract_text_from_txt_eq)
  from a b c d show ?thesis by blast
qed

theorem extract_text_from_txt_total_witness:
  "extract_text_from_txt [0xE2, 0x80, 0x94, 0x41] = Inr [8212, 65]
   \<and> extract_text_from_txt [0xE2, 0x80, 0x41] = Inr [226, 128, 65]
   \<and> (\<exists>content_text.
         collect_content ascii_lower no_pdf None
           (Some \<lparr>filename = Some (lit ''notes.TXT''), file_bytes = [0xE2, 0x80, 0x41]\<rparr>)
         = Inr content_text)"
proof -
  have "extract_text_from_txt [0xE2, 0x80, 0x94, 0x41] = Inr [8212, 65]"
    by (simp add: extract_text_from_txt_eq continuation_def)
  moreover have "extract_text_from_txt [0xE2, 0x80, 0x41] = Inr [226, 128, 65]"
    by (simp add: extract_text_from_txt_eq continuation_def)
  moreover have "\<exists>content_text.
         collect_content ascii_lower no_pdf None
           (Some \<lparr>filename = Some (lit ''notes.TXT''), file_bytes = [0xE2, 0x80, 0x41]\<rparr>)
         = Inr content_text"
    using extract_text_from_txt_total[of "[0xE2, 0x80, 0x41]" ascii_lower
        "\<lparr>filename = Some (lit ''notes.TXT''), file_bytes = [0xE2, 0x80, 0x41]\<rparr>" no_pdf None]
      ext_notes
    by blast
  ultimately show ?thesis by blast
qed

section \<open>The echo stream\<close>

text \<open>
  Claim C8. Without a model or without a tokenizer, and for a message list that is not
  empty, \<open>stream_generate\<close> returns a finite sequence of fragments of one character
  each, whose concatenation is \<open>Echo: \<close> followed by the content of the last message, and
  no thread.
\<close>

theorem dummy_stream_generate_echo:
  assumes "messages \<noteq> []" and "tokenizer = None \<or> model = None"
  shows "\<exists>fragments.
           stream_generate generate tokenizer model messages settings = Inr (fragments, None)
           \<and> concat fragments = lit ''Echo: '' @ msg_content (last messages)
           \<and> list_all (\<lambda>fragment. length fragment = 1) fragments"
proof -
  let ?fs = "map (\<lambda>ch. [ch]) (lit ''Echo: '' @ msg_content (last messages))"
  have "stream_generate generate tokenizer model messages settings = Inr (?fs, None)"
    using assms by (auto simp add: stream_generate_def split: option.split list.split)
  moreover have "concat ?fs = lit ''Echo: '' @ msg_content (last messages)"
    by (induction "lit ''Echo: '' @ msg_content (last messages)") (simp_all add: concat_map_singleton)
  moreover have "list_all (\<lambda>fragment. length fragment = 1) ?fs"
    by (auto simp add: list_all_iff)
  ultimately show ?thesis by blast
qed

theorem dummy_stream_generate_echo_witness:
  "\<exists>fragments.
     stream_generate no_generate None None
       [\<lparr>msg_role = lit ''user'', msg_content = lit ''hi''\<rparr>] () = Inr (fragments, None)
     \<and> concat fragments = lit ''Echo: hi''
     \<and> list_all (\<lambda>fragment. length fragment = 1) fragments"
  using dummy_stream_generate_echo[of "[\<lparr>msg_role = lit ''user'', msg_content = lit ''hi''\<rparr>]"
      None None no_generate "()"]
  by (simp add: lit_def)

section \<open>The router\<close>

lemma is_impact_query_iff:
  "is_impact_query lower prompt \<longleftrightarrow>
     (\<exists>keyword \<in> set impact_keywords. \<exists>pre post.
        lower (case prompt of None \<Rightarrow> [] | Some p \<Rightarrow> p) = pre @ keyword @ post)"
  by (simp add: is_impact_query_def prompt_lower_def list_ex_iff contains_iff)

lemma agent_used_evaluate_script:
  "agent_used (evaluate_script lower content prompt rubric_text) = lit ''script_reviewer''"
  by (simp add: evaluate_script_def Let_def split: prod.split)

lemma agent_used_evaluate_impact:
  "agent_used (evaluate_impact lower content prompt rubric_text) = lit ''impact_agent''"
  by (simp add: evaluate_impact_def Let_def split: prod.split)

lemma impact_keywords_nonempty: "keyword \<in> set impact_keywords \<Longrightarrow> keyword \<noteq> []"
  by (auto simp add: impact_keywords_def lit_def)

lemma no_keyword_in_empty: "\<not> list_ex (\<lambda>keyword. contains keyword []) impact_keywords"
  by (auto simp add: list_ex_iff dest: impact_keywords_nonempty)

text \<open>
  Claim C1. The router hands the request to the impact agent exactly when one of the
  fifteen keywords is a substring of the lowercased prompt, a missing prompt counting as
  the empty string, and to the script reviewer otherwise. Which agent answers does not
  depend on the content or the rubric, and \<open>route\<close> has no raising path. With a
  lowercasing that keeps the empty string empty, a missing or empty prompt goes to the
  script reviewer.
\<close>

theorem route_by_prompt_keywords:
  "(if \<exists>keyword \<in> set impact_keywords. \<exists>pre post.
          lower (case prompt of None \<Rightarrow> [] | Some p \<Rightarrow> p) = pre @ keyword @ post
    then route lower content prompt rubric_text
           = evaluate_impact lower content prompt rubric_text
         \<and> agent_used (route lower content prompt rubric_text) = lit ''impact_agent''
    else route lower content prompt rubric_text
           = evaluate_script lower content prompt rubric_text
         \<and> agent_used (route lower content prompt rubric_text) = lit ''script_reviewer'')
   \<and> agent_used (route lower content prompt rubric_text)
       = agent_used (route lower content' prompt rubric_text')
   \<and> (lower [] = [] \<longrightarrow>
        route lower content None rubric_text = evaluate_script lower content None rubric_text
        \<and> route lower content (Some []) rubric_text
            = evaluate_script lower content (Some []) rubric_text)"
proof -
  have dispatch: "route lower c prompt r =
      (if is_impact_query lower prompt then evaluate_impact lower c prompt r
       else evaluate_script lower c prompt r)" for c r
    by (simp add: route_def)
  have first: "(if \<exists>keyword \<in> set impact_keywords. \<exists>pre post.
          lower (case prompt of None \<Rightarrow> [] | Some p \<Rightarrow> p) = pre @ keyword @ post
    then route lower content prompt rubric_text
           = evaluate_impact lower content prompt rubric_text
         \<and> agent_used (route lower content prompt rubric_text) = lit ''impact_agent''
    else route lower content prompt rubric_text
           = evaluate_script lower content prompt rubric_text
         \<and> agent_used (route lower content prompt rubric_text) = lit ''script_reviewer'')"
    unfolding is_impact_query_iff[symmetric]
    by (simp add: dispatch agent_used_evaluate_script agent_used_evaluate_impact)
  have second: "agent_used (route lower content prompt rubric_text)
       = agent_used (route lower content' prompt rubric_text')"
    by (simp add: dispatch agent_used_evaluate_script agent_used_evaluate_impact)
  have third: "lower [] = [] \<longrightarrow>
        route lower content None rubric_text = evaluate_script lower content None rubric_text
        \<and> route lower content (Some []) rubric_text
            = evaluate_script lower content (Some []) rubric_text"
    using no_keyword_in_empty
    by (simp add: route_def is_impact_query_def prompt_lower_def)
  from first second third show ?thesis by blast
qed

lemma social_impact_prompt:
  "ascii_lower (lit ''Check Social Impact'') = lit ''check '' @ lit ''social'' @ lit '' impact''"
  by (simp add: ascii_lower_def lit_def)

lemma plot_prompt: "\<not> is_impact_query ascii_lower (Some (lit ''Is the plot good?''))"
  by (simp add: is_impact_query_def prompt_lower_def impact_keywords_def ascii_lower_def lit_def)

theorem route_by_prompt_keywords_witness:
  "agent_used (route ascii_lower (lit ''A story about diversity and empowerment'')
      (Some (lit ''Check Social Impact'')) None) = lit ''impact_agent''
   \<and> agent_used (route ascii_lower (lit ''A story about diversity and empowerment'')
      (Some (lit ''Is the plot good?'')) None) = lit ''script_reviewer''
   \<and> agent_used (route ascii_lower (lit ''A story about diversity and empowerment'')
      None None) = lit ''script_reviewer''"
proof -
  let ?c = "lit ''A story about diversity and empowerment''"
  have social: "lit ''social'' \<in> set impact_keywords"
    by (simp add: impact_keywords_def)
  have "\<exists>keyword \<in> set impact_keywords. \<exists>pre post.
          ascii_lower (case Some (lit ''Check Social Impact'') of None \<Rightarrow> [] | Some p \<Rightarrow> p)
            = pre @ keyword @ post"
    using social social_impact_prompt by (metis option.simps(5))
  then have a: "agent_used (route ascii_lower ?c (Some (lit ''Check Social Impact'')) None)
      = lit ''impact_agent''"
    using route_by_prompt_keywords[of ascii_lower "Some (lit ''Check Social Impact'')" ?c None ?c None]
    by metis
  have "\<not> (\<exists>keyword \<in> set impact_keywords. \<exists>pre post.
          ascii_lower (case Some (lit ''Is the plot good?'') of None \<Rightarrow> [] | Some p \<Rightarrow> p)
            = pre @ keyword @ post)"
    using plot_prompt unfolding is_impact_query_iff .
  then have b: "agent_used (route ascii_lower ?c (Some (lit ''Is the plot good?'')) None)
      = lit ''script_reviewer''"
    using route_by_prompt_keywords[of ascii_lower "Some (lit ''Is the plot good?'')" ?c None ?c None]
    by metis
  have "ascii_lower [] = []" by (simp add: ascii_lower_def)
  then have c: "agent_used (route ascii_lower ?c None None) = lit ''script_reviewer''"
    using route_by_prompt_keywords[of ascii_lower None ?c None ?c None]
    by (simp add: agent_used_evaluate_script)
  from a b c show ?thesis by blast
qed

section \<open>Monotonicity of the script score\<close>



lemma keyword_count_card:
  assumes "distinct kws"
  shows "keyword_count lower kws content =
     card {kw \<in> set kws. \<exists>pre post. lower content = pre @ lower kw @ post}"
proof -
  have "{kw \<in> set kws. \<exists>pre post. lower content = pre @ lower kw @ post}
      = {kw. contains (lower kw) (lower content)} \<inter> set kws"
    by (auto simp add: contains_iff)
  then show ?thesis
    using distinct_length_filter[OF assms, of "\<lambda>kw. contains (lower kw) (lower content)"]
    by (simp add: keyword_count_def)
qed

lemma distinct_keywords: "distinct positive_keywords" "distinct negative_keywords"
  by (simp_all add: positive_keywords_def negative_keywords_def lit_def)




section \<open>The content the handler collects\<close>

lemma join_two: "join sep [a, b] = a @ sep @ b"
  by simp

lemma strip_A: "strip (lit ''A'') = lit ''A''"
  by (simp add: strip_def lit_def is_space_def)

lemma txt_not_pdf: "lit ''txt'' \<noteq> lit ''pdf''"
  by (simp add: lit_def)

lemma ext_simple:
  "file_extension ascii_lower \<lparr>filename = Some (lit ''empty.txt''), file_bytes = b\<rparr> = lit ''txt''"
  "file_extension ascii_lower \<lparr>filename = Some (lit ''b.txt''), file_bytes = b\<rparr> = lit ''txt''"
  "file_extension ascii_lower \<lparr>filename = Some (lit ''x.docx''), file_bytes = b\<rparr> = lit ''docx''"
  by (simp_all add: file_extension_def lit_def ascii_lower_def)

lemma docx_unsupported: "lit ''docx'' \<noteq> lit ''pdf''" "lit ''docx'' \<noteq> lit ''txt''"
  by (simp_all add: lit_def)

text \<open>
  Claim C5, as stated, fails: with the text \<open>A\<close> and an empty txt file the handler joins
  both parts and passes \<open>A\<close> followed by a blank line, although the file contributes no
  text; the specification's assembly gives \<open>A\<close>.
\<close>

theorem content_assembly_counterexample:
  "extract_text_from_txt [] = Inr []
   \<and> collect_content ascii_lower no_pdf (Some (lit ''A''))
        (Some \<lparr>filename = Some (lit ''empty.txt''), file_bytes = []\<rparr>)
      = Inr (lit ''A'' @ [10, 10])
   \<and> spec_assembled_content (Some (lit ''A'')) (Some []) = lit ''A''
   \<and> lit ''A'' @ [10, 10] \<noteq> lit ''A''"
proof -
  have a: "extract_text_from_txt [] = Inr []"
    by (simp add: extract_text_from_txt_eq)
  have b: "collect_content ascii_lower no_pdf (Some (lit ''A''))
        (Some \<lparr>filename = Some (lit ''empty.txt''), file_bytes = []\<rparr>)
      = Inr (lit ''A'' @ [10, 10])"
    using txt_not_pdf
    by (simp add: collect_content_def Let_def ext_simple a text_parts_def strip_A)
      (simp add: lit_def)
  have c: "spec_assembled_content (Some (lit ''A'')) (Some []) = lit ''A''"
    by (simp add: spec_assembled_content_def provided_def lit_def)
  have d: "lit ''A'' @ [10, 10] \<noteq> lit ''A''"
    by simp
  from a b c d show ?thesis by blast
qed

lemma collect_content_None:
  "collect_content lower pdf_reader text_input None = Inr (join [10, 10] (text_parts text_input))"
  by (simp add: collect_content_def)

lemma collect_content_txt:
  assumes "file_extension lower f = lit ''txt''"
  shows "\<exists>extracted_text. extract_text_from_txt (file_bytes f) = Inr extracted_text
     \<and> collect_content lower pdf_reader text_input (Some f)
         = Inr (join [10, 10] (text_parts text_input @ [extracted_text]))"
  using assms txt_not_pdf
  by (simp add: collect_content_def Let_def extract_text_from_txt_eq)

lemma collect_content_pdf:
  assumes "file_extension lower f = lit ''pdf''" and "pdf_reader (file_bytes f) = Inr pages"
  shows "collect_content lower pdf_reader text_input (Some f)
         = Inr (join [10, 10] (text_parts text_input
             @ [strip (concat (map (\<lambda>page_text. page_text @ [10]) pages))]))"
  using assms
  by (simp add: collect_content_def Let_def extract_text_from_pdf_def)

lemma collect_content_unsupported:
  assumes "file_extension lower f \<noteq> lit ''pdf''" and "file_extension lower f \<noteq> lit ''txt''"
  shows "collect_content lower pdf_reader text_input (Some f)
         = Inl (HTTPException 400 (unsupported_file_type (file_extension lower f)))"
  using assms
  by (simp add: collect_content_def Let_def)

lemma query_endpoint_with_routed:
  assumes "collect_content lower pdf_reader text_input script_file = Inr content_text"
    and "strip content_text \<noteq> []"
    and "resolve_rubric lower pdf_reader rubric_file = Inr rubric_text"
  shows "query_endpoint_with router lower pdf_reader text_input prompt script_file rubric_file
     = (case router content_text prompt (Some rubric_text) of
          Inl e \<Rightarrow> Inl (HTTPException 500 (lit ''Error processing query: '' @ e))
        | Inr result \<Rightarrow> Inr result)"
  using assms by (simp add: query_endpoint_with_def)

text \<open>
  Claim C5, amended. The content is the join, with a blank line as separator, of the
  trimmed \<^verbatim>\<open>text_input\<close> (when it is given and is not the empty string) and then the text
  extracted from \<^verbatim>\<open>script_file\<close> (whenever a file is uploaded and extraction succeeds, the
  extracted text empty or not). When this content is not blank and the rubric is resolved,
  it is the content the router receives. The text \<open>A\<close> with a txt file holding \<open>B\<close>
  gives \<open>A\<close>, a blank line, \<open>B\<close>.
\<close>

theorem content_assembly:
  assumes "content_parts =
      (case text_input of None \<Rightarrow> [] | Some t \<Rightarrow> if t = [] then [] else [strip t])"
  shows
    "(script_file = None \<longrightarrow>
        collect_content lower pdf_reader text_input script_file
          = Inr (join [10, 10] content_parts))
     \<and> (script_file = Some f \<and> file_extension lower f = lit ''txt'' \<longrightarrow>
          (\<exists>extracted_text. extract_text_from_txt (file_bytes f) = Inr extracted_text
             \<and> collect_content lower pdf_reader text_input script_file
                 = Inr (join [10, 10] (content_parts @ [extracted_text]))))
     \<and> (script_file = Some f \<and> file_extension lower f = lit ''pdf''
          \<and> pdf_reader (file_bytes f) = Inr pages \<longrightarrow>
          collect_content lower pdf_reader text_input script_file
            = Inr (join [10, 10] (content_parts
                @ [strip (concat (map (\<lambda>page_text. page_text @ [10]) pages))])))
     \<and> (collect_content lower pdf_reader text_input script_file = Inr content_text
          \<and> strip content_text \<noteq> []
          \<and> resolve_rubric lower pdf_reader rubric_file = Inr rubric_text \<longrightarrow>
          query_endpoint lower pdf_reader text_input prompt script_file rubric_file
            = Inr (route lower content_text prompt (Some rubric_text)))"
proof -
  have parts: "content_parts = text_parts text_input"
    using assms by (simp add: text_parts_def)
  have a: "script_file = None \<longrightarrow>
        collect_content lower pdf_reader text_input script_file
          = Inr (join [10, 10] content_parts)"
    by (simp add: parts collect_content_None)
  have b: "script_file = Some f \<and> file_extension lower f = lit ''txt'' \<longrightarrow>
          (\<exists>extracted_text. extract_text_from_txt (file_bytes f) = Inr extracted_text
             \<and> collect_content lower pdf_reader text_input script_file
                 = Inr (join [10, 10] (content_parts @ [extracted_text])))"
    using collect_content_txt[of lower f pdf_reader text_input] by (auto simp add: parts)
  have c: "script_file = Some f \<and> file_extension lower f = lit ''pdf''
          \<and> pdf_reader (file_bytes f) = Inr pages \<longrightarrow>
          collect_content lower pdf_reader text_input script_file
            = Inr (join [10, 10] (content_parts
                @ [strip (concat (map (\<lambda>page_text. page_text @ [10]) pages))]))"
    using collect_content_pdf[of lower f pdf_reader pages text_input] by (auto simp add: parts)
  have d: "collect_content lower pdf_reader text_input script_file = Inr content_text
          \<and> strip content_text \<noteq> []
          \<and> resolve_rubric lower pdf_reader rubric_file = Inr rubric_text \<longrightarrow>
          query_endpoint lower pdf_reader text_input prompt script_file rubric_file
            = Inr (route lower content_text prompt (Some rubric_text))"
    by (simp add: query_endpoint_def query_endpoint_with_routed)
  from a b c d show ?thesis by blast
qed

lemma strip_A_B: "strip (lit ''A'' @ [10, 10] @ lit ''B'') \<noteq> []"
  by (simp add: strip_def lit_def is_space_def)

lemma extract_B: "extract_text_from_txt [66] = Inr (lit ''B'')"
  by (simp add: extract_text_from_txt_eq lit_def)

theorem content_assembly_witness:
  "collect_content ascii_lower no_pdf (Some (lit ''A''))
      (Some \<lparr>filename = Some (lit ''b.txt''), file_bytes = [66]\<rparr>)
     = Inr (lit ''A'' @ [10, 10] @ lit ''B'')
   \<and> query_endpoint ascii_lower no_pdf (Some (lit ''A'')) None
        (Some \<lparr>filename = Some (lit ''b.txt''), file_bytes = [66]\<rparr>) None
     = Inr (route ascii_lower (lit ''A'' @ [10, 10] @ lit ''B'') None (Some DEFAULT_RUBRIC))"
proof -
  let ?f = "\<lparr>filename = Some (lit ''b.txt''), file_bytes = [66]\<rparr>"
  have parts: "[lit ''A''] =
      (case Some (lit ''A'') of None \<Rightarrow> [] | Some t \<Rightarrow> if t = [] then [] else [strip t])"
    by (simp add: strip_A) (simp add: lit_def)
  note ca = content_assembly[OF parts, of "Some ?f" ascii_lower no_pdf ?f _
      "lit ''A'' @ [10, 10] @ lit ''B''" None DEFAULT_RUBRIC None]
  have ext: "file_extension ascii_lower ?f = lit ''txt''"
    by (rule ext_simple)
  from ca ext have "\<exists>extracted_text. extract_text_from_txt (file_bytes ?f) = Inr extracted_text
      \<and> collect_content ascii_lower no_pdf (Some (lit ''A'')) (Some ?f)
          = Inr (join [10, 10] ([lit ''A''] @ [extracted_text]))"
    by blast
  then have collected: "collect_content ascii_lower no_pdf (Some (lit ''A'')) (Some ?f)
     = Inr (lit ''A'' @ [10, 10] @ lit ''B'')"
    by (auto simp add: extract_B)
  have rubric: "resolve_rubric ascii_lower no_pdf None = Inr DEFAULT_RUBRIC"
    by (simp add: resolve_rubric_def)
  from ca collected strip_A_B rubric
  have "query_endpoint ascii_lower no_pdf (Some (lit ''A'')) None (Some ?f) None
     = Inr (route ascii_lower (lit ''A'' @ [10, 10] @ lit ''B'') None (Some DEFAULT_RUBRIC))"
    by blast
  with collected show ?thesis by blast
qed

section \<open>Requests without content\<close>

lemma detail_heads:
  "unsupported_file_type ext \<noteq> no_script_content"
  "unsupported_rubric_file_type ext \<noteq> no_script_content"
  "lit ''Error reading PDF: '' @ e \<noteq> no_script_content"
  by (simp_all add: unsupported_file_type_def unsupported_rubric_file_type_def
        no_script_content_def lit_def)

lemma collect_content_failure:
  assumes "collect_content lower pdf_reader text_input script_file = Inl e"
  shows "\<exists>detail. e = HTTPException 400 detail \<and> detail \<noteq> no_script_content"
  using assms detail_heads
  by (auto simp add: collect_content_def Let_def extract_text_from_pdf_def
        extract_text_from_txt_eq split: option.splits if_splits sum.splits)

lemma resolve_rubric_failure:
  assumes "resolve_rubric lower pdf_reader rubric_file = Inl e"
  shows "\<exists>detail. e = HTTPException 400 detail \<and> detail \<noteq> no_script_content"
  using assms detail_heads
  by (auto simp add: resolve_rubric_def Let_def extract_text_from_pdf_def
        extract_text_from_txt_eq split: option.splits if_splits sum.splits)

lemma query_endpoint_with_empty:
  assumes "collect_content lower pdf_reader text_input script_file = Inr content_text"
    and "strip content_text = []"
  shows "query_endpoint_with router lower pdf_reader text_input prompt script_file rubric_file
     = Inl (HTTPException 400 no_script_content)"
  using assms by (simp add: query_endpoint_with_def)

lemma query_endpoint_with_no_content_only_if:
  assumes "query_endpoint_with router lower pdf_reader text_input prompt script_file rubric_file
     = Inl (HTTPException 400 no_script_content)"
  shows "\<exists>content_text. collect_content lower pdf_reader text_input script_file = Inr content_text
     \<and> strip content_text = []"
proof (cases "collect_content lower pdf_reader text_input script_file")
  case (Inl e)
  with assms collect_content_failure[OF Inl] show ?thesis
    by (auto simp add: query_endpoint_with_def)
next
  case (Inr content_text)
  show ?thesis
  proof (cases "strip content_text = []")
    case True
    with Inr show ?thesis by simp
  next
    case False
    show ?thesis
    proof (cases "resolve_rubric lower pdf_reader rubric_file")
      case (Inl e)
      with assms Inr False resolve_rubric_failure[OF Inl] show ?thesis
        by (auto simp add: query_endpoint_with_def)
    next
      case rubric: (Inr rubric_text)
      with assms Inr False show ?thesis
        by (auto simp add: query_endpoint_with_def split: sum.splits)
    qed
  qed
qed

text \<open>
  Claim C6. The request fails with status 400 and the detail \<open>No script content provided\<close>
  exactly when the content was collected and is empty after trimming; this holds for every
  router, so the outcome is fixed before any router is called. A request with neither
  \<^verbatim>\<open>text_input\<close> nor \<^verbatim>\<open>script_file\<close> is such a request.
\<close>

theorem empty_content_rejected:
  "(query_endpoint_with router lower pdf_reader text_input prompt script_file rubric_file
      = Inl (HTTPException 400 no_script_content)
    \<longleftrightarrow> (\<exists>content_text.
           collect_content lower pdf_reader text_input script_file = Inr content_text
           \<and> strip content_text = []))
   \<and> (query_endpoint lower pdf_reader text_input prompt script_file rubric_file
      = Inl (HTTPException 400 no_script_content)
    \<longleftrightarrow> (\<exists>content_text.
           collect_content lower pdf_reader text_input script_file = Inr content_text
           \<and> strip content_text = []))
   \<and> query_endpoint_with router lower pdf_reader None prompt None rubric_file
      = Inl (HTTPException 400 no_script_content)
   \<and> query_endpoint lower pdf_reader None prompt None rubric_file
      = Inl (HTTPException 400 no_script_content)"
proof -
  have iff: "(query_endpoint_with r lower pdf_reader text_input prompt script_file rubric_file
      = Inl (HTTPException 400 no_script_content)
    \<longleftrightarrow> (\<exists>content_text.
           collect_content lower pdf_reader text_input script_file = Inr content_text
           \<and> strip content_text = []))" for r
    using query_endpoint_with_no_content_only_if[of r] query_endpoint_with_empty[of _ _ _ _ _ r]
    by blast
  have "collect_content lower pdf_reader None None = Inr []"
    by (simp add: collect_content_None text_parts_def)
  moreover have "strip [] = []"
    by (simp add: strip_def)
  ultimately have none: "query_endpoint_with r lower pdf_reader None prompt None rubric_file
      = Inl (HTTPException 400 no_script_content)" for r
    by (rule query_endpoint_with_empty)
  from iff none show ?thesis
    unfolding query_endpoint_def by blast
qed

theorem empty_content_rejected_witness:
  "query_endpoint ascii_lower no_pdf None (Some (lit ''check social impact'')) None None
     = Inl (HTTPException 400
         (lit ''No script content provided. Please provide text_input or upload a script_file.''))
   \<and> query_endpoint ascii_lower no_pdf (Some (lit ''    '')) None None None
     = Inl (HTTPException 400
         (lit ''No script content provided. Please provide text_input or upload a script_file.''))"
proof -
  have "collect_content ascii_lower no_pdf (Some (lit ''    '')) None = Inr []"
    by (simp add: collect_content_None text_parts_def strip_def lit_def is_space_def)
  moreover have "strip [] = []"
    by (simp add: strip_def)
  ultimately have "\<exists>content_text.
      collect_content ascii_lower no_pdf (Some (lit ''    '')) None = Inr content_text
      \<and> strip content_text = []"
    by blast
  then have "query_endpoint ascii_lower no_pdf (Some (lit ''    '')) None None None
     = Inl (HTTPException 400 no_script_content)"
    using empty_content_rejected[of _ ascii_lower no_pdf "Some (lit ''    '')" None None None]
    by blast
  moreover have "query_endpoint ascii_lower no_pdf None (Some (lit ''check social impact'')) None None
     = Inl (HTTPException 400 no_script_content)"
    using empty_content_rejected[of _ ascii_lower no_pdf _ "Some (lit ''check social impact'')" _ None]
    by blast
  ultimately show ?thesis
    by (simp only: no_script_content_def)
qed

section \<open>Unsupported file extensions\<close>

lemma contains_middle: "contains kw (pre @ kw @ post)"
  unfolding contains_iff by blast

lemma resolve_rubric_unsupported:
  assumes "file_extension lower g \<noteq> lit ''pdf''" and "file_extension lower g \<noteq> lit ''txt''"
  shows "resolve_rubric lower pdf_reader (Some g)
         = Inl (HTTPException 400 (unsupported_rubric_file_type (file_extension lower g)))"
  using assms
  by (simp add: resolve_rubric_def Let_def)

lemma docx_not_named: "\<not> contains (lit ''docx'') no_script_content"
  by (simp add: no_script_content_def lit_def)

text \<open>
  Claim C7, as stated, fails for the rubric: a request with no script content and a rubric
  file \<open>x.docx\<close> is rejected for its missing content, and the detail does not name
  \<open>docx\<close>.
\<close>

theorem unsupported_extension_counterexample:
  "file_extension ascii_lower \<lparr>filename = Some (lit ''x.docx''), file_bytes = []\<rparr> = lit ''docx''
   \<and> query_endpoint ascii_lower no_pdf None None None
        (Some \<lparr>filename = Some (lit ''x.docx''), file_bytes = []\<rparr>)
      = Inl (HTTPException 400 no_script_content)
   \<and> \<not> contains (lit ''docx'') no_script_content"
proof -
  have "collect_content ascii_lower no_pdf None None = Inr []"
    by (simp add: collect_content_None text_parts_def)
  moreover have "strip [] = []"
    by (simp add: strip_def)
  ultimately have "query_endpoint ascii_lower no_pdf None None None
        (Some \<lparr>filename = Some (lit ''x.docx''), file_bytes = []\<rparr>)
      = Inl (HTTPException 400 no_script_content)"
    unfolding query_endpoint_def by (rule query_endpoint_with_empty)
  then show ?thesis
    using ext_simple(3) docx_not_named by blast
qed

text \<open>
  Claim C7, amended. A \<^verbatim>\<open>script_file\<close> whose extension is neither pdf nor txt makes the
  request fail with status 400 and a detail that names the extension. A \<^verbatim>\<open>rubric_file\<close>
  with such an extension makes the request fail with status 400 in every case; the detail
  names the extension of the rubric when the script content was collected and is not
  empty after trimming.
\<close>

theorem unsupported_extension_rejected:
  "(script_file = Some f \<and> file_extension lower f \<noteq> lit ''pdf''
      \<and> file_extension lower f \<noteq> lit ''txt'' \<longrightarrow>
      query_endpoint_with router lower pdf_reader text_input prompt script_file rubric_file
        = Inl (HTTPException 400
            (lit ''Unsupported file type: '' @ file_extension lower f
               @ lit ''. Only PDF and TXT are supported.'')))
   \<and> (rubric_file = Some g \<and> file_extension lower g \<noteq> lit ''pdf''
      \<and> file_extension lower g \<noteq> lit ''txt'' \<longrightarrow>
      (\<exists>detail.
         query_endpoint_with router lower pdf_reader text_input prompt script_file rubric_file
           = Inl (HTTPException 400 detail))
      \<and> (collect_content lower pdf_reader text_input script_file = Inr content_text
           \<and> strip content_text \<noteq> [] \<longrightarrow>
          query_endpoint_with router lower pdf_reader text_input prompt script_file rubric_file
            = Inl (HTTPException 400
                (lit ''Unsupported rubric file type: '' @ file_extension lower g
                   @ lit ''. Only PDF and TXT are supported.''))))"
proof -
  let ?q = "query_endpoint_with router lower pdf_reader text_input prompt script_file rubric_file"
  have script: "?q = Inl (HTTPException 400
            (lit ''Unsupported file type: '' @ file_extension lower f
               @ lit ''. Only PDF and TXT are supported.''))"
    if "script_file = Some f" "file_extension lower f \<noteq> lit ''pdf''"
      "file_extension lower f \<noteq> lit ''txt''"
    using that collect_content_unsupported[of lower f pdf_reader text_input]
    by (simp add: query_endpoint_with_def unsupported_file_type_def)
  have rubric_named: "?q = Inl (HTTPException 400
                (lit ''Unsupported rubric file type: '' @ file_extension lower g
                   @ lit ''. Only PDF and TXT are supported.''))"
    if "rubric_file = Some g" "file_extension lower g \<noteq> lit ''pdf''"
      "file_extension lower g \<noteq> lit ''txt''"
      "collect_content lower pdf_reader text_input script_file = Inr content_text"
      "strip content_text \<noteq> []"
    using that resolve_rubric_unsupported[of lower g pdf_reader]
    by (simp add: query_endpoint_with_def unsupported_rubric_file_type_def)
  have rubric_400: "\<exists>detail. ?q = Inl (HTTPException 400 detail)"
    if g: "rubric_file = Some g" "file_extension lower g \<noteq> lit ''pdf''"
      "file_extension lower g \<noteq> lit ''txt''"
  proof (cases "collect_content lower pdf_reader text_input script_file")
    case (Inl e)
    with collect_content_failure[OF Inl] show ?thesis
      by (auto simp add: query_endpoint_with_def)
  next
    case (Inr c)
    show ?thesis
    proof (cases "strip c = []")
      case True
      with Inr show ?thesis by (simp add: query_endpoint_with_def)
    next
      case False
      with Inr g resolve_rubric_unsupported[of lower g pdf_reader] show ?thesis
        by (simp add: query_endpoint_with_def)
    qed
  qed
  from script rubric_named rubric_400 show ?thesis by blast
qed

lemma strip_A_nonempty: "strip (lit ''A'') \<noteq> []"
  by (simp add: strip_def lit_def is_space_def)

lemma collect_A: "collect_content ascii_lower no_pdf (Some (lit ''A'')) None = Inr (lit ''A'')"
  by (simp add: collect_content_None text_parts_def strip_A)

theorem unsupported_extension_rejected_witness:
  "query_endpoint ascii_lower no_pdf (Some (lit ''A'')) None
      (Some \<lparr>filename = Some (lit ''x.docx''), file_bytes = []\<rparr>) None
     = Inl (HTTPException 400
         (lit ''Unsupported file type: docx. Only PDF and TXT are supported.''))
   \<and> query_endpoint ascii_lower no_pdf (Some (lit ''A'')) None None
        (Some \<lparr>filename = Some (lit ''x.docx''), file_bytes = []\<rparr>)
     = Inl (HTTPException 400
         (lit ''Unsupported rubric file type: docx. Only PDF and TXT are supported.''))"
proof -
  let ?f = "\<lparr>filename = Some (lit ''x.docx''), file_bytes = []\<rparr>"
  have ext: "file_extension ascii_lower ?f = lit ''docx''"
    by (rule ext_simple)
  have "query_endpoint ascii_lower no_pdf (Some (lit ''A'')) None (Some ?f) None
     = Inl (HTTPException 400
         (lit ''Unsupported file type: '' @ lit ''docx''
            @ lit ''. Only PDF and TXT are supported.''))"
    unfolding query_endpoint_def
    using unsupported_extension_rejected[of "Some ?f" ?f ascii_lower _ no_pdf "Some (lit ''A'')"
        None None ?f] docx_unsupported
    by (simp only: ext simp_thms)
  moreover have "query_endpoint ascii_lower no_pdf (Some (lit ''A'')) None None (Some ?f)
     = Inl (HTTPException 400
         (lit ''Unsupported rubric file type: '' @ lit ''docx''
            @ lit ''. Only PDF and TXT are supported.''))"
    unfolding query_endpoint_def
    using unsupported_extension_rejected[of None ?f ascii_lower _ no_pdf "Some (lit ''A'')"
        None "Some ?f" ?f "lit ''A''"] docx_unsupported collect_A strip_A_nonempty
    by (simp only: ext simp_thms)
  ultimately show ?thesis
    by (simp add: lit_def)
qed

section \<open>The impact score\<close>

lemma distinct_sensitive_topics: "distinct sensitive_topics"
  by (simp add: sensitive_topics_def lit_def)

lemma distinct_positive_indicators: "distinct positive_indicators"
  by (simp add: positive_indicators_def lit_def)

lemma detected_topics_card:
  "length (detected_topics content_lower) =
     card {topic \<in> set sensitive_topics.
             \<exists>kw \<in> set (snd topic). \<exists>pre post. content_lower = pre @ kw @ post}"
proof -
  have "{topic \<in> set sensitive_topics.
           \<exists>kw \<in> set (snd topic). \<exists>pre post. content_lower = pre @ kw @ post}
      = {topic. case topic of (name, keywords) \<Rightarrow>
           list_ex (\<lambda>kw. contains kw content_lower) keywords} \<inter> set sensitive_topics"
    by (auto simp add: contains_iff list_ex_iff) blast+
  then show ?thesis
    using distinct_length_filter[OF distinct_sensitive_topics,
        of "\<lambda>(name, keywords). list_ex (\<lambda>kw. contains kw content_lower) keywords"]
    by (simp add: detected_topics_def)
qed

lemma indicator_count_card:
  "indicator_count content_lower =
     card {ind \<in> set positive_indicators. \<exists>pre post. content_lower = pre @ ind @ post}"
proof -
  have "{ind \<in> set positive_indicators. \<exists>pre post. content_lower = pre @ ind @ post}
      = {ind. contains ind content_lower} \<inter> set positive_indicators"
    by (auto simp add: contains_iff)
  then show ?thesis
    using distinct_length_filter[OF distinct_positive_indicators,
        of "\<lambda>ind. contains ind content_lower"]
    by (simp add: indicator_count_def)
qed

lemma detected_topics_le: "length (detected_topics content_lower) \<le> 3"
proof -
  have "length (detected_topics content_lower) \<le> length sensitive_topics"
    unfolding detected_topics_def by simp
  then show ?thesis by (simp add: sensitive_topics_def)
qed

lemma indicator_count_le: "indicator_count content_lower \<le> 5"
proof -
  have "indicator_count content_lower \<le> length positive_indicators"
    unfolding indicator_count_def by simp
  then show ?thesis by (simp add: positive_indicators_def)
qed

lemma impact_level_evaluate_impact:
  "map_of (details (evaluate_impact lower content prompt rubric_text)) (lit ''impact_level'')
     = Some (PyStr (fst (impact_assessment (score (evaluate_impact lower content prompt rubric_text)))))"
  by (simp add: evaluate_impact_def Let_def split: prod.split)

lemma fst_impact_assessment:
  "fst (impact_assessment s) =
     (if 7 / 10 \<le> s then lit ''Positive'' else if 5 / 10 \<le> s then lit ''Mixed''
      else lit ''Needs Review'')"
  by (simp add: impact_assessment_def)

text \<open>
  Claim C2, as stated, fails: the content \<open>diversity diversity\<close> holds two occurrences
  of a positive-indicator keyword and no sensitive topic, so the specification's score is
  0.8; the agent counts the keyword once and returns 0.75.
\<close>

theorem impact_score_counterexample:
  "score (evaluate_impact ascii_lower (lit ''diversity diversity'') None None) = 75 / 100
   \<and> spec_impact_score
         (length (detected_topics (ascii_lower (lit ''diversity diversity''))))
         (spec_indicator_occurrences (ascii_lower (lit ''diversity diversity''))) = 80 / 100"
proof -
  have topics: "detected_topics (ascii_lower (lit ''diversity diversity'')) = []"
    by (simp add: detected_topics_def sensitive_topics_def lit_def ascii_lower_def)
  have indicators: "indicator_count (ascii_lower (lit ''diversity diversity'')) = 1"
    by (simp add: indicator_count_def positive_indicators_def lit_def ascii_lower_def)
  have code: "score (evaluate_impact ascii_lower (lit ''diversity diversity'') None None)
      = 75 / 100"
    by (simp add: impact_score_closed topics indicators)
  have occurrences: "spec_indicator_occurrences (ascii_lower (lit ''diversity diversity'')) = 2"
    by (simp add: spec_indicator_occurrences_def positive_indicators_def lit_def ascii_lower_def)
  have "spec_impact_score 0 2 = 80 / 100"
    by (simp add: spec_impact_score_def)
  then have "spec_impact_score
         (length (detected_topics (ascii_lower (lit ''diversity diversity''))))
         (spec_indicator_occurrences (ascii_lower (lit ''diversity diversity''))) = 80 / 100"
    by (simp only: topics occurrences list.size)
  with code show ?thesis by blast
qed

text \<open>
  Claim C2, amended. The impact score is 0.7, lowered by 0.2 for every one of the three
  topic categories of which some keyword occurs in the lowercased content (floor 0.2),
  then raised by 0.05 for every one of the five positive-indicator keywords that occurs
  in the lowercased content at least once (ceiling 0.95). The impact level is Positive
  from 0.7, Mixed from 0.5 and Needs Review below.
\<close>

theorem impact_score_formula:
  assumes "topic_count =
      card {topic \<in> set sensitive_topics.
              \<exists>kw \<in> set (snd topic). \<exists>pre post. lower content = pre @ kw @ post}"
    and "indicator_total =
      card {ind \<in> set positive_indicators. \<exists>pre post. lower content = pre @ ind @ post}"
  shows "score (evaluate_impact lower content prompt rubric_text)
           = min (95 / 100)
               (max (2 / 10) (7 / 10 - (2 / 10) * of_nat topic_count)
                  + (5 / 100) * of_nat indicator_total)
         \<and> map_of (details (evaluate_impact lower content prompt rubric_text))
             (lit ''impact_level'')
           = Some (PyStr
               (if 7 / 10 \<le> score (evaluate_impact lower content prompt rubric_text)
                then lit ''Positive''
                else if 5 / 10 \<le> score (evaluate_impact lower content prompt rubric_text)
                then lit ''Mixed''
                else lit ''Needs Review''))
         \<and> topic_count \<le> 3 \<and> indicator_total \<le> 5
         \<and> map fst sensitive_topics
           = [lit ''violence'', lit ''discrimination'', lit ''sensitive_content'']"
proof -
  have n: "topic_count = length (detected_topics (lower content))"
    using assms(1) by (simp add: detected_topics_card)
  have p: "indicator_total = indicator_count (lower content)"
    using assms(2) by (simp add: indicator_count_card)
  have a: "score (evaluate_impact lower content prompt rubric_text)
           = min (95 / 100)
               (max (2 / 10) (7 / 10 - (2 / 10) * of_nat topic_count)
                  + (5 / 100) * of_nat indicator_total)"
    unfolding n p by (rule impact_score_closed)
  have b: "map_of (details (evaluate_impact lower content prompt rubric_text))
             (lit ''impact_level'')
           = Some (PyStr
               (if 7 / 10 \<le> score (evaluate_impact lower content prompt rubric_text)
                then lit ''Positive''
                else if 5 / 10 \<le> score (evaluate_impact lower content prompt rubric_text)
                then lit ''Mixed''
                else lit ''Needs Review''))"
    unfolding impact_level_evaluate_impact fst_impact_assessment ..
  have c: "topic_count \<le> 3" "indicator_total \<le> 5"
    unfolding n p by (rule detected_topics_le, rule indicator_count_le)
  have d: "map fst sensitive_topics
           = [lit ''violence'', lit ''discrimination'', lit ''sensitive_content'']"
    by (simp add: sensitive_topics_def)
  from a b c d show ?thesis by blast
qed

lemma awareness_topics:
  "detected_topics (ascii_lower (lit ''Diversity and awareness'')) = [lit ''violence'']"
  by (simp add: detected_topics_def sensitive_topics_def lit_def ascii_lower_def)

lemma awareness_indicators:
  "indicator_count (ascii_lower (lit ''Diversity and awareness'')) = 2"
  by (simp add: indicator_count_def positive_indicators_def lit_def ascii_lower_def)

theorem impact_score_formula_witness:
  "score (evaluate_impact ascii_lower (lit ''Diversity and awareness'') None None) = 60 / 100
   \<and> map_of (details (evaluate_impact ascii_lower (lit ''Diversity and awareness'') None None))
       (lit ''impact_level'') = Some (PyStr (lit ''Mixed''))"
proof -
  let ?c = "ascii_lower (lit ''Diversity and awareness'')"
  let ?n = "card {topic \<in> set sensitive_topics.
              \<exists>kw \<in> set (snd topic). \<exists>pre post. ?c = pre @ kw @ post}"
  let ?p = "card {ind \<in> set positive_indicators. \<exists>pre post. ?c = pre @ ind @ post}"
  have n: "?n = 1"
    using detected_topics_card[of ?c] by (simp add: awareness_topics)
  have p: "?p = 2"
    using indicator_count_card[of ?c] by (simp add: awareness_indicators)
  note formula = impact_score_formula[OF refl refl, of ascii_lower
      "lit ''Diversity and awareness''" None None]
  from formula have s: "score (evaluate_impact ascii_lower (lit ''Diversity and awareness'') None None)
      = 60 / 100"
    unfolding n p by simp
  from formula have "map_of (details (evaluate_impact ascii_lower (lit ''Diversity and awareness'') None None))
       (lit ''impact_level'') = Some (PyStr (lit ''Mixed''))"
    unfolding s by simp
  with s show ?thesis by blast
qed

end
